theory Spec2Isabelle
  imports Complex_Main
begin

section \<open>Weather dashboard: the code of app.js\<close>

subsection \<open>Strings\<close>

text \<open>
  A JavaScript string is a sequence of UTF-16 code units. Text that is plain ASCII in
  app.js is written with \<open>lit\<close>; every other character of a literal is given by its
  code units.
\<close>

type_synonym jsstring = "nat list"

definition lit :: "string \<Rightarrow> jsstring" where
  "lit s = map of_char s"

text \<open>
  The characters outside ASCII that the literals of app.js contain besides the emoji:
  the em dash U+2014 (the placeholder of \<^verbatim>\<open>weatherCodeToText\<close> and the separator of
  the current panel), the horizontal ellipsis U+2026 of the progress texts and the
  degree sign U+00B0 of the units.
\<close>

definition em_dash :: jsstring where
  "em_dash = [0x2014]"

definition ellipsis :: jsstring where
  "ellipsis = [0x2026]"

definition degree :: jsstring where
  "degree = [0xB0]"

text \<open>
  \<^verbatim>\<open>String.prototype.trim\<close> removes, at both ends, the code units that ECMAScript
  calls white space or line terminators: tab, line feed, vertical tab, form feed,
  carriage return, space, no-break space, the Unicode space separators, the line and
  paragraph separators and the byte order mark.
\<close>

definition is_whitespace :: "nat \<Rightarrow> bool" where
  "is_whitespace u \<longleftrightarrow>
     u \<in> set [0x09, 0x0A, 0x0B, 0x0C, 0x0D, 0x20, 0xA0, 0x1680, 0x2000, 0x2001, 0x2002,
               0x2003, 0x2004, 0x2005, 0x2006, 0x2007, 0x2008, 0x2009, 0x200A, 0x2028,
               0x2029, 0x202F, 0x205F, 0x3000, 0xFEFF]"

definition trim :: "jsstring \<Rightarrow> jsstring" where
  "trim s = rev (dropWhile is_whitespace (rev (dropWhile is_whitespace s)))"

text \<open>
  \<^verbatim>\<open>encodeURIComponent\<close> throws a URIError when its argument holds a lone surrogate:
  a leading surrogate (D800 to DBFF) that no trailing surrogate (DC00 to DFFF) follows,
  or a trailing surrogate that no leading one precedes. \<open>well_formed\<close> walks the code
  units as the encoding does, a surrogate pair counting for two.
\<close>

definition leading_surrogate :: "nat \<Rightarrow> bool" where
  "leading_surrogate u \<longleftrightarrow> 0xD800 \<le> u \<and> u \<le> 0xDBFF"

definition trailing_surrogate :: "nat \<Rightarrow> bool" where
  "trailing_surrogate u \<longleftrightarrow> 0xDC00 \<le> u \<and> u \<le> 0xDFFF"

fun well_formed :: "jsstring \<Rightarrow> bool" where
  "well_formed [] = True"
| "well_formed [u] = (\<not> leading_surrogate u \<and> \<not> trailing_surrogate u)"
| "well_formed (u # v # us) =
     (if leading_surrogate u then trailing_surrogate v \<and> well_formed us
      else \<not> trailing_surrogate u \<and> well_formed (v # us))"

subsection \<open>Icon and text mapping\<close>

text \<open>
  \<^verbatim>\<open>weatherCodeToText\<close>: the object literal \<open>map\<close>, in the order of the source, and the
  lookup \<^verbatim>\<open>map[code] ?? placeholder\<close>. An integer key that is not an own property of
  the literal is not found on the prototype chain either, so the lookup is undefined
  and the right operand of \<open>??\<close> is returned.
\<close>

definition weather_map :: "(int \<times> jsstring) list" where
  "weather_map =
    [(0, lit ''Clear sky''),
     (1, lit ''Mainly clear''),
     (2, lit ''Partly cloudy''),
     (3, lit ''Overcast''),
     (45, lit ''Fog''),
     (48, lit ''Depositing rime fog''),
     (51, lit ''Light drizzle''),
     (53, lit ''Moderate drizzle''),
     (55, lit ''Dense drizzle''),
     (56, lit ''Freezing drizzle''),
     (57, lit ''Freezing drizzle (dense)''),
     (61, lit ''Slight rain''),
     (63, lit ''Moderate rain''),
     (65, lit ''Heavy rain''),
     (66, lit ''Freezing rain (light)''),
     (67, lit ''Freezing rain (heavy)''),
     (71, lit ''Slight snow''),
     (73, lit ''Moderate snow''),
     (75, lit ''Heavy snow''),
     (77, lit ''Snow grains''),
     (80, lit ''Rain showers (slight)''),
     (81, lit ''Rain showers (moderate)''),
     (82, lit ''Rain showers (violent)''),
     (85, lit ''Snow showers (slight)''),
     (86, lit ''Snow showers (heavy)''),
     (95, lit ''Thunderstorm''),
     (96, lit ''Thunderstorm with slight hail''),
     (99, lit ''Thunderstorm with heavy hail'')]"

definition weatherCodeToText :: "int \<Rightarrow> jsstring" where
  "weatherCodeToText code =
    (case map_of weather_map code of Some t \<Rightarrow> t | None \<Rightarrow> em_dash)"

text \<open>
  The emoji of \<^verbatim>\<open>makeIconImg\<close>, as the code units of the literals in the source:
  thermometer (the fallback), sun, crescent moon, sun behind cloud, cloud, fog,
  sun behind rain cloud, rain cloud, rain cloud followed by snowflake, snowflake,
  thunder cloud with rain.
\<close>

definition emoji_thermometer :: jsstring where
  "emoji_thermometer = [0xD83C, 0xDF21, 0xFE0F]"

definition emoji_sun :: jsstring where
  "emoji_sun = [0x2600, 0xFE0F]"

definition emoji_moon :: jsstring where
  "emoji_moon = [0xD83C, 0xDF19]"

definition emoji_partly :: jsstring where
  "emoji_partly = [0x26C5]"

definition emoji_cloud :: jsstring where
  "emoji_cloud = [0x2601, 0xFE0F]"

definition emoji_fog :: jsstring where
  "emoji_fog = [0xD83C, 0xDF2B, 0xFE0F]"

definition emoji_drizzle :: jsstring where
  "emoji_drizzle = [0xD83C, 0xDF26, 0xFE0F]"

definition emoji_rain :: jsstring where
  "emoji_rain = [0xD83C, 0xDF27, 0xFE0F]"

definition emoji_freezing_rain :: jsstring where
  "emoji_freezing_rain = [0xD83C, 0xDF27, 0xFE0F, 0x2744, 0xFE0F]"

definition emoji_snow :: jsstring where
  "emoji_snow = [0x2744, 0xFE0F]"

definition emoji_thunder :: jsstring where
  "emoji_thunder = [0x26C8, 0xFE0F]"

text \<open>
  \<^verbatim>\<open>makeIconImg\<close> builds a span whose text is the chosen emoji and whose font size is
  fixed; the model returns the text of the span. \<^verbatim>\<open>[..].includes(code)\<close> is list
  membership.
\<close>

definition makeIconImg :: "int \<Rightarrow> bool \<Rightarrow> jsstring" where
  "makeIconImg code isDay =
    (if code \<in> set [0] then (if isDay then emoji_sun else emoji_moon)
     else if code \<in> set [1, 2] then emoji_partly
     else if code \<in> set [3] then emoji_cloud
     else if code \<in> set [45, 48] then emoji_fog
     else if code \<in> set [51, 53, 55] then emoji_drizzle
     else if code \<in> set [61, 63, 65, 80, 81, 82] then emoji_rain
     else if code \<in> set [66, 67] then emoji_freezing_rain
     else if code \<in> set [71, 73, 75, 77, 85, 86] then emoji_snow
     else if code \<in> set [95, 96, 99] then emoji_thunder
     else emoji_thermometer)"

subsection \<open>Data\<close>

text \<open>
  A location, as \<^verbatim>\<open>geocodeCity\<close> returns it and as \<^verbatim>\<open>lastLocation\<close> holds it. A result
  of the geocoding response carries the same four fields, which are all the code reads.
\<close>

record location =
  name :: jsstring
  country :: jsstring
  latitude :: real
  longitude :: real

record geo_json =
  results :: "location list option"

text \<open>
  The forecast response: \<^verbatim>\<open>data.current_weather\<close> and \<^verbatim>\<open>data.daily\<close>. The daily object
  holds one array per field; the code reads \<^verbatim>\<open>precipitation_probability_max\<close> through
  \<^verbatim>\<open>?.\<close>, so that field may be absent. The fields of the current conditions that
  share a name with a daily field carry the prefix \<open>cw\<close>.
\<close>

record current_weather =
  temperature :: real
  windspeed :: real
  cw_weathercode :: int
  is_day :: int
  cw_time :: jsstring

record daily =
  time :: "jsstring list"
  temperature_2m_max :: "real list"
  temperature_2m_min :: "real list"
  weathercode :: "int list"
  precipitation_probability_max :: "real list option"

record weather_json =
  current_weather :: current_weather
  daily :: daily

subsection \<open>The network and the platform\<close>

text \<open>
  What \<^verbatim>\<open>fetch\<close> gives for one request: the promise rejects (\<open>Rejected\<close>), or it
  resolves to a response with a status and a body; the body is \<open>None\<close> when
  \<^verbatim>\<open>res.json()\<close> rejects. \<^verbatim>\<open>res.ok\<close> holds for the statuses 200 to 299.
\<close>

datatype 'a response = Rejected | Response nat "'a option"

definition ok :: "nat \<Rightarrow> bool" where
  "ok status \<longleftrightarrow> 200 \<le> status \<and> status \<le> 299"

text \<open>
  The two endpoints, as functions of the parameters that vary in the URL: the place
  name for the geocoding endpoint (count 1, language en and format json are fixed),
  and latitude, longitude and temperature unit for the forecast endpoint (the daily
  fields, the automatic time zone and the wind speed unit mph are fixed).
\<close>

record network =
  geocoding_api :: "jsstring \<Rightarrow> geo_json response"
  forecast_api :: "real \<Rightarrow> real \<Rightarrow> jsstring \<Rightarrow> weather_json response"

datatype request = GeocodeRequest jsstring | WeatherRequest real real jsstring

text \<open>What the code throws, and what \<^verbatim>\<open>console.error\<close> then logs.\<close>

datatype exn = URIError | FetchRejected | JsonRejected | GeocodingHTTP nat | WeatherHTTP nat

text \<open>
  \<^verbatim>\<open>navigator.geolocation.getCurrentPosition\<close>: the platform has not called back yet
  (\<open>Pending\<close>), calls the success callback with coordinates, or calls the error
  callback with an error whose message may be missing; a timeout is such an error.
\<close>

datatype position_result = Pending | Position real real | PositionError "jsstring option"

subsection \<open>The page\<close>

text \<open>
  The content the code writes into the two display regions: a text, or the panel and
  the grid that the render functions build. A panel and a card hold the values that
  the templates interpolate; the dates stay as the response gives them, since their
  formatting depends on the locale. A rounded number that is \<open>None\<close> is NaN.
\<close>

record panel =
  p_title :: jsstring
  p_icon :: jsstring
  p_temp :: int
  p_unit :: jsstring
  p_desc :: jsstring
  p_wind :: int
  p_updated :: jsstring

record card =
  c_icon :: jsstring
  c_date :: "jsstring option"
  c_desc :: jsstring
  c_hi :: "int option"
  c_lo :: "int option"
  c_unit :: jsstring
  c_precip :: "real option"

datatype current_html = CurrentText jsstring | CurrentPanel panel

datatype forecast_html = ForecastText jsstring | ForecastGrid "card list"

text \<open>
  The state that the handlers read and write: the variable \<^verbatim>\<open>lastLocation\<close>, the
  elements of the page, and two logs that stand for the outside world: the requests
  sent with \<^verbatim>\<open>fetch\<close> and the errors given to \<^verbatim>\<open>console.error\<close>.
\<close>

record state =
  lastLocation :: "location option"
  cityInput_value :: jsstring
  unitToggle_checked :: bool
  currentEl :: current_html
  forecastEl :: forecast_html
  errorEl :: jsstring
  geoBtn_disabled :: bool
  geoBtn_textContent :: jsstring
  requests :: "request list"
  console :: "exn list"

subsection \<open>API helpers\<close>

text \<open>
  A function that awaits and may throw returns the exception or its value, together
  with the state it leaves. A body that can be read is taken to have the shape of the
  records above. \<^verbatim>\<open>geocodeCity\<close> builds its URL with \<^verbatim>\<open>encodeURIComponent(name)\<close>
  first, which throws before any request is sent when the name is not well formed.
\<close>

definition geocodeCity :: "network \<Rightarrow> jsstring \<Rightarrow> state \<Rightarrow> (exn + location option) \<times> state" where
  "geocodeCity net nm s =
    (if \<not> well_formed nm then (Inl URIError, s)
     else
       (let s1 = s\<lparr>requests := requests s @ [GeocodeRequest nm]\<rparr> in
        case geocoding_api net nm of
          Rejected \<Rightarrow> (Inl FetchRejected, s1)
        | Response status body \<Rightarrow>
            if \<not> ok status then (Inl (GeocodingHTTP status), s1)
            else (case body of
              None \<Rightarrow> (Inl JsonRejected, s1)
            | Some json \<Rightarrow>
                (case results json of
                   None \<Rightarrow> (Inr None, s1)
                 | Some [] \<Rightarrow> (Inr None, s1)
                 | Some (r # _) \<Rightarrow>
                     (Inr (Some \<lparr>name = name r, country = country r,
                                 latitude = latitude r, longitude = longitude r\<rparr>), s1)))))"

definition fetchWeather ::
  "network \<Rightarrow> real \<Rightarrow> real \<Rightarrow> jsstring \<Rightarrow> state \<Rightarrow> (exn + weather_json) \<times> state" where
  "fetchWeather net lat lon tempUnit s =
    (let s1 = s\<lparr>requests := requests s @ [WeatherRequest lat lon tempUnit]\<rparr> in
     case forecast_api net lat lon tempUnit of
       Rejected \<Rightarrow> (Inl FetchRejected, s1)
     | Response status body \<Rightarrow>
         if \<not> ok status then (Inl (WeatherHTTP status), s1)
         else (case body of
           None \<Rightarrow> (Inl JsonRejected, s1)
         | Some json \<Rightarrow> (Inr json, s1)))"

subsection \<open>Render helpers\<close>

definition showError :: "jsstring \<Rightarrow> state \<Rightarrow> state" where
  "showError msg s = s\<lparr>errorEl := msg\<rparr>"

text \<open>\<^verbatim>\<open>Math.round\<close>: the nearest integer, a tie going up.\<close>

definition Math_round :: "real \<Rightarrow> int" where
  "Math_round x = \<lfloor>x + 1 / 2\<rfloor>"

text \<open>Reading an array at an index: past the end the value is undefined (\<open>None\<close>).\<close>

definition js_index :: "'a list \<Rightarrow> nat \<Rightarrow> 'a option" where
  "js_index xs i = (if i < length xs then Some (xs ! i) else None)"

definition unit_suffix :: "bool \<Rightarrow> jsstring" where
  "unit_suffix useF = (if useF then degree @ lit ''F'' else degree @ lit ''C'')"

definition renderCurrent :: "location \<Rightarrow> weather_json \<Rightarrow> bool \<Rightarrow> state \<Rightarrow> state" where
  "renderCurrent loc data useF s =
    (let unit = unit_suffix useF;
         c = current_weather data;
         desc = weatherCodeToText (cw_weathercode c);
         isDay = (is_day c = 1)
     in s\<lparr>currentEl := CurrentPanel
          \<lparr>p_title = lit ''Current '' @ em_dash @ lit '' '' @ name loc @
                      (if country loc \<noteq> [] then lit '', '' @ country loc else []),
           p_icon = makeIconImg (cw_weathercode c) isDay,
           p_temp = Math_round (temperature c),
           p_unit = unit,
           p_desc = desc,
           p_wind = Math_round (windspeed c),
           p_updated = cw_time c\<rparr>\<rparr>)"

text \<open>
  The body of the loop of \<^verbatim>\<open>renderForecast\<close> for the index \<open>i\<close>. Where a read is
  undefined, \<^verbatim>\<open>Math.round\<close> gives NaN, \<^verbatim>\<open>weatherCodeToText\<close> finds no entry and gives
  the placeholder, no list of \<^verbatim>\<open>makeIconImg\<close> includes the code, and
  \<^verbatim>\<open>Number.isFinite\<close> is false, so that no precipitation line is written.
\<close>

definition day_card :: "daily \<Rightarrow> jsstring \<Rightarrow> nat \<Rightarrow> card" where
  "day_card d unit i =
    (let dateStr = js_index (time d) i;
         hi = map_option Math_round (js_index (temperature_2m_max d) i);
         lo = map_option Math_round (js_index (temperature_2m_min d) i);
         code = js_index (weathercode d) i;
         precip = (case precipitation_probability_max d of
                     None \<Rightarrow> None | Some ps \<Rightarrow> js_index ps i)
     in \<lparr>c_icon = (case code of None \<Rightarrow> emoji_thermometer | Some k \<Rightarrow> makeIconImg k True),
         c_date = dateStr,
         c_desc = (case code of None \<Rightarrow> em_dash | Some k \<Rightarrow> weatherCodeToText k),
         c_hi = hi,
         c_lo = lo,
         c_unit = unit,
         c_precip = precip\<rparr>)"

text \<open>
  The loop \<^verbatim>\<open>for (let i = 0; i < Math.min(5, d.time.length); i++)\<close>, from the index
  \<open>i\<close> on, appending each card to the grid.
\<close>

function forecast_loop :: "daily \<Rightarrow> jsstring \<Rightarrow> nat \<Rightarrow> card list \<Rightarrow> card list" where
  "forecast_loop d unit i grid =
    (if i < min 5 (length (time d))
     then forecast_loop d unit (Suc i) (grid @ [day_card d unit i])
     else grid)"
  by pat_completeness auto
termination
  by (relation "measure (\<lambda>(d, unit, i, grid). min 5 (length (time d)) - i)") auto

declare forecast_loop.simps [simp del]

definition renderForecast :: "weather_json \<Rightarrow> bool \<Rightarrow> state \<Rightarrow> state" where
  "renderForecast data useF s =
    (let d = daily data;
         unit = unit_suffix useF
     in s\<lparr>forecastEl := ForecastGrid (forecast_loop d unit 0 [])\<rparr>)"

subsection \<open>Event handlers\<close>

definition unit_param :: "bool \<Rightarrow> jsstring" where
  "unit_param useF = (if useF then lit ''fahrenheit'' else lit ''celsius'')"

text \<open>
  The catch block shared, word for word, by the submit handler and the unit toggle
  handler.
\<close>

definition catch_fetch :: "exn \<Rightarrow> state \<Rightarrow> state" where
  "catch_fetch err s =
    (let s1 = s\<lparr>console := console s @ [err]\<rparr>;
         s2 = s1\<lparr>currentEl := CurrentText []\<rparr>;
         s3 = s2\<lparr>forecastEl := ForecastText []\<rparr>
     in showError (lit ''Something went wrong fetching weather.'') s3)"

text \<open>The try block of the submit handler, for the trimmed city.\<close>

definition submit_try :: "network \<Rightarrow> jsstring \<Rightarrow> state \<Rightarrow> (exn + unit) \<times> state" where
  "submit_try net city s =
    (case geocodeCity net city s of
       (Inl err, s1) \<Rightarrow> (Inl err, s1)
     | (Inr None, s1) \<Rightarrow>
         (Inr (), showError (lit ''City not found. Try again.'')
                    (s1\<lparr>currentEl := CurrentText []\<rparr>))
     | (Inr (Some loc), s1) \<Rightarrow>
         (let s2 = s1\<lparr>lastLocation := Some loc\<rparr>;
              s3 = s2\<lparr>currentEl := CurrentText
                     (lit ''Location: '' @ name loc @ lit '', '' @ country loc @
                      lit ''<br>Fetching weather'' @ ellipsis)\<rparr>;
              useF = unitToggle_checked s3;
              unitParam = unit_param useF
          in case fetchWeather net (latitude loc) (longitude loc) unitParam s3 of
               (Inl err, s4) \<Rightarrow> (Inl err, s4)
             | (Inr data, s4) \<Rightarrow>
                 (Inr (), renderForecast data useF (renderCurrent loc data useF s4))))"

text \<open>
  The submit handler is an async function: \<open>form_submit_async\<close> gives how its promise
  settles (\<open>Inl\<close> an exception that escapes, \<open>Inr\<close> fulfilled) and the state it
  leaves. \<^verbatim>\<open>!city\<close> holds for the empty string.
\<close>

definition form_submit_async :: "network \<Rightarrow> state \<Rightarrow> (exn + unit) \<times> state" where
  "form_submit_async net s =
    (let city = trim (cityInput_value s) in
     if city = [] then (Inr (), s)
     else
       (let s1 = showError [] s;
            s2 = s1\<lparr>currentEl := CurrentText (lit ''Looking up location'' @ ellipsis)\<rparr>;
            s3 = s2\<lparr>forecastEl := ForecastText []\<rparr>
        in case submit_try net city s3 of
             (Inr u, s4) \<Rightarrow> (Inr u, s4)
           | (Inl err, s4) \<Rightarrow> (Inr (), catch_fetch err s4)))"

definition form_submit :: "network \<Rightarrow> state \<Rightarrow> state" where
  "form_submit net s = snd (form_submit_async net s)"

text \<open>
  The success callback of the geolocation request: the try block, then the catch
  block, then the finally block.
\<close>

definition geo_success_try ::
  "network \<Rightarrow> real \<Rightarrow> real \<Rightarrow> state \<Rightarrow> (exn + unit) \<times> state" where
  "geo_success_try net lat lon s =
    (let useF = unitToggle_checked s;
         unitParam = unit_param useF
     in case fetchWeather net lat lon unitParam s of
          (Inl err, s1) \<Rightarrow> (Inl err, s1)
        | (Inr data, s1) \<Rightarrow>
            (let loc = \<lparr>name = lit ''Your location'', country = [],
                        latitude = lat, longitude = lon\<rparr>;
                 s2 = s1\<lparr>lastLocation := Some loc\<rparr>
             in (Inr (), renderForecast data useF (renderCurrent loc data useF s2))))"

definition geo_success :: "network \<Rightarrow> real \<Rightarrow> real \<Rightarrow> state \<Rightarrow> state" where
  "geo_success net lat lon s =
    (let s2 = (case geo_success_try net lat lon s of
                 (Inr _, s1) \<Rightarrow> s1
               | (Inl err, s1) \<Rightarrow>
                   showError (lit ''Could not fetch weather for your location.'')
                     (s1\<lparr>console := console s1 @ [err]\<rparr>));
         s3 = s2\<lparr>geoBtn_disabled := False\<rparr>
     in s3\<lparr>geoBtn_textContent := lit ''Use my location''\<rparr>)"

text \<open>
  The error callback: \<^verbatim>\<open>err?.message || fallback\<close> takes the fallback when the message
  is missing or empty.
\<close>

definition geo_error :: "jsstring option \<Rightarrow> state \<Rightarrow> state" where
  "geo_error message s =
    (let s1 = showError (case message of
                           None \<Rightarrow> lit ''Permission denied or unavailable.''
                         | Some m \<Rightarrow> if m \<noteq> [] then m
                                      else lit ''Permission denied or unavailable.'') s;
         s2 = s1\<lparr>geoBtn_disabled := False\<rparr>
     in s2\<lparr>geoBtn_textContent := lit ''Use my location''\<rparr>)"

text \<open>
  The click handler of the geolocation button. \<open>geolocation\<close> is \<open>None\<close> when
  \<^verbatim>\<open>navigator.geolocation\<close> is missing, and otherwise what the platform does with the
  request.
\<close>

definition geoBtn_click :: "network \<Rightarrow> position_result option \<Rightarrow> state \<Rightarrow> state" where
  "geoBtn_click net geolocation s =
    (case geolocation of
       None \<Rightarrow> showError (lit ''Geolocation is not supported by your browser.'') s
     | Some result \<Rightarrow>
         (let s1 = showError [] s;
              s2 = s1\<lparr>geoBtn_disabled := True\<rparr>;
              s3 = s2\<lparr>geoBtn_textContent := lit ''Locating'' @ ellipsis\<rparr>
          in case result of
               Pending \<Rightarrow> s3
             | Position lat lon \<Rightarrow> geo_success net lat lon s3
             | PositionError message \<Rightarrow> geo_error message s3))"

text \<open>
  The change handler of the unit toggle; the checkbox already holds its new value when
  the handler runs. The try block reads \<^verbatim>\<open>lastLocation\<close> at each use; no other
  handler runs in between here, so it is read once.
\<close>

definition toggle_try :: "network \<Rightarrow> location \<Rightarrow> state \<Rightarrow> (exn + unit) \<times> state" where
  "toggle_try net loc s =
    (let s1 = showError [] s;
         s2 = s1\<lparr>currentEl := CurrentText
                (lit ''Location: '' @ name loc @
                 (if country loc \<noteq> [] then lit '', '' @ country loc else []) @
                 lit ''<br>Fetching weather'' @ ellipsis)\<rparr>;
         s3 = s2\<lparr>forecastEl := ForecastText []\<rparr>;
         useF = unitToggle_checked s3;
         unitParam = unit_param useF
     in case fetchWeather net (latitude loc) (longitude loc) unitParam s3 of
          (Inl err, s4) \<Rightarrow> (Inl err, s4)
        | (Inr data, s4) \<Rightarrow>
            (Inr (), renderForecast data useF (renderCurrent loc data useF s4)))"

definition unitToggle_change :: "network \<Rightarrow> state \<Rightarrow> state" where
  "unitToggle_change net s =
    (case lastLocation s of
       None \<Rightarrow> s
     | Some loc \<Rightarrow>
         (case toggle_try net loc s of
            (Inr _, s1) \<Rightarrow> s1
          | (Inl err, s1) \<Rightarrow> catch_fetch err s1))"

subsection \<open>Notions of the specification\<close>

text \<open>The set of known codes as the specification lists it.\<close>

definition documented_codes :: "int set" where
  "documented_codes =
    {0, 1, 2, 3, 45, 48, 51, 53, 55, 56, 57, 61, 63, 65, 66, 67, 71, 73, 75, 77,
     80, 81, 82, 85, 86, 95, 96, 99}"

text \<open>
  A fetch fails when \<^verbatim>\<open>fetchWeather\<close> or \<^verbatim>\<open>geocodeCity\<close> throws on it: the transport
  fails, the status is not a success, or the body cannot be read.
\<close>

definition fetch_fails :: "'a response \<Rightarrow> bool" where
  "fetch_fails r =
    (case r of Rejected \<Rightarrow> True | Response status body \<Rightarrow> \<not> ok status \<or> body = None)"

text \<open>The day-cards that the forecast region shows.\<close>

definition forecast_cards :: "state \<Rightarrow> card list" where
  "forecast_cards s = (case forecastEl s of ForecastGrid cs \<Rightarrow> cs | ForecastText _ \<Rightarrow> [])"

text \<open>
  The lengths of the parallel daily sequences that the loop reads (the precipitation
  sequence only when it is present), the shortest of them, and the invariant of the
  data model that they are all equal.
\<close>

definition daily_lengths :: "daily \<Rightarrow> nat list" where
  "daily_lengths d =
    [length (time d), length (temperature_2m_max d), length (temperature_2m_min d),
     length (weathercode d)] @
    (case precipitation_probability_max d of None \<Rightarrow> [] | Some ps \<Rightarrow> [length ps])"

definition shortest_daily :: "daily \<Rightarrow> nat" where
  "shortest_daily d = fold min (daily_lengths d) (length (time d))"

definition equal_lengths :: "daily \<Rightarrow> bool" where
  "equal_lengths d \<longleftrightarrow> list_all (\<lambda>n. n = length (time d)) (daily_lengths d)"

subsection \<open>Example inputs\<close>

text \<open>A page on which nothing has been looked up yet, with a city typed in.\<close>

definition fresh_page :: state where
  "fresh_page =
    \<lparr>lastLocation = None, cityInput_value = lit '' Paris '', unitToggle_checked = False,
     currentEl = CurrentText [], forecastEl = ForecastText [], errorEl = [],
     geoBtn_disabled = False, geoBtn_textContent = lit ''Use my location'',
     requests = [], console = []\<rparr>"

definition paris :: location where
  "paris = \<lparr>name = lit ''Paris'', country = lit ''France'',
             latitude = 48.86, longitude = 2.35\<rparr>"

text \<open>A forecast with seven daily entries.\<close>

definition week :: weather_json where
  "week =
    \<lparr>current_weather =
       \<lparr>temperature = 18.4, windspeed = 12, cw_weathercode = 2, is_day = 1,
        cw_time = lit ''2024-05-01T12:00''\<rparr>,
     daily =
       \<lparr>time = [lit ''2024-05-01'', lit ''2024-05-02'', lit ''2024-05-03'',
                lit ''2024-05-04'', lit ''2024-05-05'', lit ''2024-05-06'',
                lit ''2024-05-07''],
        temperature_2m_max = [20.3, 21, 19.5, 18, 17.2, 22, 23.9],
        temperature_2m_min = [11, 12.4, 10, 9.5, 8, 12, 13],
        weathercode = [2, 3, 61, 80, 0, 1, 95],
        precipitation_probability_max = Some [10, 20, 80, 60, 0, 5, 90]\<rparr>\<rparr>"



text \<open>
  Networks: both endpoints answer; the place is unknown; the forecast endpoint answers
  with status 500; the forecast endpoint cannot be reached.
\<close>

definition net_up :: network where
  "net_up =
    \<lparr>geocoding_api = (\<lambda>nm. Response 200 (Some \<lparr>results = Some [paris]\<rparr>)),
     forecast_api = (\<lambda>lat lon tempUnit. Response 200 (Some week))\<rparr>"

definition net_unknown_place :: network where
  "net_unknown_place =
    \<lparr>geocoding_api = (\<lambda>nm. Response 200 (Some \<lparr>results = Some []\<rparr>)),
     forecast_api = (\<lambda>lat lon tempUnit. Response 200 (Some week))\<rparr>"

definition net_forecast_500 :: network where
  "net_forecast_500 =
    \<lparr>geocoding_api = (\<lambda>nm. Response 200 (Some \<lparr>results = Some [paris]\<rparr>)),
     forecast_api = (\<lambda>lat lon tempUnit. Response 500 None)\<rparr>"

definition net_forecast_down :: network where
  "net_forecast_down =
    \<lparr>geocoding_api = (\<lambda>nm. Response 200 (Some \<lparr>results = Some [paris]\<rparr>)),
     forecast_api = (\<lambda>lat lon tempUnit. Rejected)\<rparr>"

text \<open>
  Pages: one whose city field holds only white space, one whose city field holds a
  lone surrogate, and one on which Paris has been looked up before.
\<close>

definition blank_page :: state where
  "blank_page = fresh_page\<lparr>cityInput_value := [0x20, 0x09, 0xA0]\<rparr>"

definition surrogate_page :: state where
  "surrogate_page = fresh_page\<lparr>cityInput_value := [0xD800]\<rparr>"

definition paris_page :: state where
  "paris_page = fresh_page\<lparr>lastLocation := Some paris\<rparr>"

section \<open>Properties\<close>

subsection \<open>Weather code mapper\<close>

lemmas emoji_defs =
  emoji_thermometer_def emoji_sun_def emoji_moon_def emoji_partly_def emoji_cloud_def
  emoji_fog_def emoji_drizzle_def emoji_rain_def emoji_freezing_rain_def emoji_snow_def
  emoji_thunder_def






text \<open>
  C7. The codes 56 and 57 (freezing drizzle) belong to the documented set and
  \<open>weatherCodeToText\<close> describes them, but no list of \<open>makeIconImg\<close> includes them: for
  both values of \<open>isDay\<close> the icon of code 56 is the fallback thermometer.
\<close>

theorem makeIconImg_freezing_drizzle_fallback:
  "(56::int) \<in> documented_codes \<and>
   weatherCodeToText 56 = lit ''Freezing drizzle'' \<and>
   makeIconImg 56 True = emoji_thermometer \<and>
   makeIconImg 56 False = emoji_thermometer"
  by (simp add: documented_codes_def weatherCodeToText_def weather_map_def makeIconImg_def)

text \<open>The other documented codes all get the emoji of a family.\<close>

lemma makeIconImg_family:
  "code \<in> documented_codes \<Longrightarrow> code \<noteq> 56 \<Longrightarrow> code \<noteq> 57 \<Longrightarrow>
     makeIconImg code isDay \<noteq> emoji_thermometer"
  unfolding documented_codes_def makeIconImg_def emoji_defs by auto

text \<open>
  C8. \<open>makeIconImg\<close> returns the night emoji (the crescent moon) only when the code is 0
  and \<open>isDay\<close> is false, and for every code other than 0 the emoji is the same for both
  values of \<open>isDay\<close>.
\<close>

theorem makeIconImg_night_only_clear:
  "(makeIconImg code isDay = emoji_moon \<longrightarrow> code = 0 \<and> \<not> isDay) \<and>
   (code \<noteq> 0 \<longrightarrow> makeIconImg code True = makeIconImg code False)"
  unfolding makeIconImg_def emoji_defs by simp

theorem makeIconImg_night_only_clear_witness:
  "makeIconImg 0 False = emoji_moon \<and> (0::int) = 0 \<and> \<not> False \<and>
   (3::int) \<noteq> 0 \<and> makeIconImg 3 True = makeIconImg 3 False"
proof -
  have moon: "makeIconImg 0 False = emoji_moon"
    by (simp add: makeIconImg_def)
  have "(0::int) = 0 \<and> \<not> False"
    using makeIconImg_night_only_clear [of 0 False] moon by blast
  moreover have "(3::int) \<noteq> 0"
    by simp
  then have "makeIconImg 3 True = makeIconImg 3 False"
    using makeIconImg_night_only_clear [of 3 True] by blast
  ultimately show ?thesis
    using moon by simp
qed

subsection \<open>Forecast grid\<close>

text \<open>The loop appends the cards of the indices from \<open>i\<close> up to the bound, in order.\<close>

lemma forecast_loop_eq:
  "forecast_loop d u i grid = grid @ map (day_card d u) [i..<min 5 (length (time d))]"
proof (induction d u i grid rule: forecast_loop.induct)
  case (1 d u i grid)
  show ?case
  proof (cases "i < min 5 (length (time d))")
    case True
    then have "forecast_loop d u i grid = forecast_loop d u (Suc i) (grid @ [day_card d u i])"
      by (subst forecast_loop.simps) simp
    also have "\<dots> = (grid @ [day_card d u i]) @
        map (day_card d u) [Suc i..<min 5 (length (time d))]"
      using 1 True by simp
    also have "\<dots> = grid @ map (day_card d u) [i..<min 5 (length (time d))]"
      using True by (simp add: upt_conv_Cons)
    finally show ?thesis .
  next
    case False
    then have "forecast_loop d u i grid = grid"
      by (subst forecast_loop.simps) auto
    moreover from False have "[i..<min 5 (length (time d))] = []"
      by auto
    ultimately show ?thesis by simp
  qed
qed

lemma forecast_cards_renderForecast:
  "forecast_cards (renderForecast data useF s) =
     map (day_card (daily data) (unit_suffix useF)) [0..<min 5 (length (time (daily data)))]"
  by (simp add: forecast_cards_def renderForecast_def forecast_loop_eq Let_def)



text \<open>The invariant of the data model, all sequences equally long, is such a case.\<close>

lemma equal_lengths_enough:
  "equal_lengths d \<Longrightarrow> min 5 (length (time d)) \<le> shortest_daily d"
  by (auto simp add: equal_lengths_def shortest_daily_def daily_lengths_def
      split: option.splits)




subsection \<open>City search\<close>

lemma trim_whitespace: "\<forall>u\<in>set v. is_whitespace u \<Longrightarrow> trim v = []"
  by (auto simp: trim_def dest: set_dropWhileD)

lemma trim_paris: "trim (cityInput_value fresh_page) = lit ''Paris''"
  by (simp add: fresh_page_def trim_def lit_def is_whitespace_def)

lemma lit_paris_nonempty: "lit ''Paris'' \<noteq> []"
  by (simp add: lit_def)

lemma fetchWeather_fails:
  "fetch_fails (forecast_api net lat lon u) \<Longrightarrow>
     \<exists>err. \<forall>s. fetchWeather net lat lon u s =
       (Inl err, s\<lparr>requests := requests s @ [WeatherRequest lat lon u]\<rparr>)"
  by (cases "forecast_api net lat lon u")
    (auto simp add: fetchWeather_def fetch_fails_def Let_def)

lemma fetchWeather_ok:
  "forecast_api net lat lon u = Response status (Some data) \<Longrightarrow> ok status \<Longrightarrow>
     fetchWeather net lat lon u s =
       (Inr data, s\<lparr>requests := requests s @ [WeatherRequest lat lon u]\<rparr>)"
  by (simp add: fetchWeather_def Let_def)

lemma fetchWeather_requests:
  "requests (snd (fetchWeather net lat lon u s)) = requests s @ [WeatherRequest lat lon u]"
  by (simp add: fetchWeather_def Let_def split: response.splits option.splits)

lemma well_formed_paris: "well_formed (lit ''Paris'')"
  by (simp add: lit_def leading_surrogate_def trailing_surrogate_def)

lemma geocodeCity_malformed:
  "\<not> well_formed city \<Longrightarrow> geocodeCity net city s = (Inl URIError, s)"
  by (simp add: geocodeCity_def)

lemma geocodeCity_no_results:
  "well_formed city \<Longrightarrow>
   geocoding_api net city = Response status (Some json) \<Longrightarrow> ok status \<Longrightarrow>
   results json = None \<or> results json = Some [] \<Longrightarrow>
     geocodeCity net city s = (Inr None, s\<lparr>requests := requests s @ [GeocodeRequest city]\<rparr>)"
  by (auto simp add: geocodeCity_def Let_def)

lemma geocodeCity_first:
  "well_formed city \<Longrightarrow>
   geocoding_api net city = Response status (Some json) \<Longrightarrow> ok status \<Longrightarrow>
   results json = Some (r # rs) \<Longrightarrow>
     geocodeCity net city s = (Inr (Some r), s\<lparr>requests := requests s @ [GeocodeRequest city]\<rparr>)"
  by (simp add: geocodeCity_def Let_def)

lemma renderForecast_frame:
  "requests (renderForecast data useF s) = requests s"
  "currentEl (renderForecast data useF s) = currentEl s"
  "errorEl (renderForecast data useF s) = errorEl s"
  "lastLocation (renderForecast data useF s) = lastLocation s"
  "geoBtn_disabled (renderForecast data useF s) = geoBtn_disabled s"
  "geoBtn_textContent (renderForecast data useF s) = geoBtn_textContent s"
  by (simp_all add: renderForecast_def Let_def)

lemma renderCurrent_frame:
  "requests (renderCurrent loc data useF s) = requests s"
  "forecastEl (renderCurrent loc data useF s) = forecastEl s"
  "errorEl (renderCurrent loc data useF s) = errorEl s"
  "lastLocation (renderCurrent loc data useF s) = lastLocation s"
  "geoBtn_disabled (renderCurrent loc data useF s) = geoBtn_disabled s"
  "geoBtn_textContent (renderCurrent loc data useF s) = geoBtn_textContent s"
  by (simp_all add: renderCurrent_def Let_def)

text \<open>
  C9. When the city field is empty or holds only white space, the submit handler
  returns at once: its promise is fulfilled and the state is the one before the
  submit, so no request is sent, and the error text, the current-conditions area, the
  forecast area and the stored location are as they were.
\<close>

theorem form_submit_blank_noop:
  "\<forall>u\<in>set (cityInput_value s). is_whitespace u \<Longrightarrow>
     form_submit_async net s = (Inr (), s) \<and> form_submit net s = s \<and>
     requests (form_submit net s) = requests s \<and>
     errorEl (form_submit net s) = errorEl s \<and>
     currentEl (form_submit net s) = currentEl s \<and>
     forecastEl (form_submit net s) = forecastEl s \<and>
     lastLocation (form_submit net s) = lastLocation s"
  by (simp add: form_submit_async_def form_submit_def trim_whitespace)

theorem form_submit_blank_noop_witness:
  "list_all is_whitespace (cityInput_value blank_page) \<and>
   form_submit_async net_up blank_page = (Inr (), blank_page) \<and>
   form_submit net_up blank_page = blank_page \<and>
   requests (form_submit net_up blank_page) = []"
proof -
  have blank: "\<forall>u\<in>set (cityInput_value blank_page). is_whitespace u"
    by (simp add: blank_page_def is_whitespace_def)
  then have all: "list_all is_whitespace (cityInput_value blank_page)"
    by (simp only: list_all_iff)
  have "requests blank_page = []"
    by (simp add: blank_page_def fresh_page_def)
  then show ?thesis
    using form_submit_blank_noop [OF blank, of net_up] all by simp
qed

text \<open>
  C3. When the geocoding request is sent (the trimmed city is not empty and is well
  formed, so that the URL can be built) and its response has no results (the list is
  absent or empty), \<open>geocodeCity\<close> returns null and the submit handler ends without
  entering its catch block: nothing is logged as an error, the current-conditions area
  is empty, the message is exactly "City not found. Try again.", and the stored
  location is kept.
\<close>

theorem form_submit_city_not_found:
  assumes "trim (cityInput_value s) = city" and "city \<noteq> []" and "well_formed city"
    and "geocoding_api net city = Response status (Some json)" and "ok status"
    and "results json = None \<or> results json = Some []"
  shows "fst (geocodeCity net city s) = Inr None \<and>
         form_submit_async net s =
           (Inr (), s\<lparr>currentEl := CurrentText [], forecastEl := ForecastText [],
                      errorEl := lit ''City not found. Try again.'',
                      requests := requests s @ [GeocodeRequest city]\<rparr>) \<and>
         currentEl (form_submit net s) = CurrentText [] \<and>
         errorEl (form_submit net s) = lit ''City not found. Try again.'' \<and>
         console (form_submit net s) = console s \<and>
         lastLocation (form_submit net s) = lastLocation s"
proof -
  have geo: "\<And>s0. geocodeCity net city s0 =
      (Inr None, s0\<lparr>requests := requests s0 @ [GeocodeRequest city]\<rparr>)"
    using assms(3-6) by (rule geocodeCity_no_results)
  have async: "form_submit_async net s =
           (Inr (), s\<lparr>currentEl := CurrentText [], forecastEl := ForecastText [],
                      errorEl := lit ''City not found. Try again.'',
                      requests := requests s @ [GeocodeRequest city]\<rparr>)"
    using assms(1,2) by (simp add: form_submit_async_def submit_try_def geo showError_def Let_def)
  show ?thesis
    by (simp add: geo form_submit_def async)
qed

theorem form_submit_city_not_found_witness:
  "trim (cityInput_value fresh_page) = lit ''Paris'' \<and> well_formed (lit ''Paris'') \<and>
   geocoding_api net_unknown_place (lit ''Paris'') =
     Response 200 (Some \<lparr>results = Some []\<rparr>) \<and> ok 200 \<and>
   fst (geocodeCity net_unknown_place (lit ''Paris'') fresh_page) = Inr None \<and>
   currentEl (form_submit net_unknown_place fresh_page) = CurrentText [] \<and>
   errorEl (form_submit net_unknown_place fresh_page) = lit ''City not found. Try again.'' \<and>
   console (form_submit net_unknown_place fresh_page) = []"
proof -
  have api: "geocoding_api net_unknown_place (lit ''Paris'') =
      Response 200 (Some \<lparr>results = Some []\<rparr>)"
    by (simp add: net_unknown_place_def)
  have st: "ok 200"
    by (simp add: ok_def)
  have res: "results \<lparr>results = Some []\<rparr> = None \<or>
      results \<lparr>results = Some ([] :: location list)\<rparr> = Some []"
    by simp
  have "console fresh_page = []"
    by (simp add: fresh_page_def)
  then show ?thesis
    using form_submit_city_not_found
        [OF trim_paris lit_paris_nonempty well_formed_paris api st res]
      trim_paris well_formed_paris api st
    by simp
qed

text \<open>
  A city that is not well formed never reaches the network: the URIError is caught,
  logged, and the generic message is shown.
\<close>

lemma form_submit_malformed:
  assumes "trim (cityInput_value s) = city" and "city \<noteq> []" and "\<not> well_formed city"
  shows "form_submit_async net s =
           (Inr (), s\<lparr>currentEl := CurrentText [], forecastEl := ForecastText [],
                      errorEl := lit ''Something went wrong fetching weather.'',
                      console := console s @ [URIError]\<rparr>)"
  using assms
  by (simp add: form_submit_async_def submit_try_def geocodeCity_malformed showError_def
      catch_fetch_def Let_def)

text \<open>
  C5. When the geocoding succeeds and the weather fetch then fails (the transport
  fails, the status is not a success, or the body cannot be read), the submit handler
  clears the current-conditions area and the forecast area and shows "Something went
  wrong fetching weather."; its promise is fulfilled, so no exception escapes.
\<close>

theorem form_submit_weather_failure:
  assumes "trim (cityInput_value s) = city" and "city \<noteq> []"
    and "geocoding_api net city = Response status (Some json)" and "ok status"
    and "results json = Some (r # rs)"
    and "fetch_fails (forecast_api net (latitude r) (longitude r)
           (unit_param (unitToggle_checked s)))"
  shows "fst (form_submit_async net s) = Inr () \<and>
         currentEl (form_submit net s) = CurrentText [] \<and>
         forecastEl (form_submit net s) = ForecastText [] \<and>
         errorEl (form_submit net s) = lit ''Something went wrong fetching weather.''"
proof -
  have "\<exists>err s1. form_submit_async net s = (Inr (), catch_fetch err s1)"
  proof (cases "well_formed city")
    case True
    have geo: "\<And>s0. geocodeCity net city s0 =
        (Inr (Some r), s0\<lparr>requests := requests s0 @ [GeocodeRequest city]\<rparr>)"
      using True assms(3-5) by (rule geocodeCity_first)
    obtain err where fw: "\<And>s0. fetchWeather net (latitude r) (longitude r)
        (unit_param (unitToggle_checked s)) s0 =
        (Inl err, s0\<lparr>requests := requests s0 @
           [WeatherRequest (latitude r) (longitude r) (unit_param (unitToggle_checked s))]\<rparr>)"
      using fetchWeather_fails [OF assms(6)] by blast
    have "\<exists>s1. form_submit_async net s = (Inr (), catch_fetch err s1)"
      using assms(1,2)
      by (simp add: form_submit_async_def submit_try_def geo fw showError_def Let_def)
        (rule exI, rule refl)
    then show ?thesis ..
  next
    case False
    have "\<exists>s1. form_submit_async net s = (Inr (), catch_fetch URIError s1)"
      using assms(1,2) False
      by (simp add: form_submit_async_def submit_try_def geocodeCity_malformed showError_def
          Let_def) (rule exI, rule refl)
    then show ?thesis ..
  qed
  then obtain err s1 where "form_submit_async net s = (Inr (), catch_fetch err s1)"
    by blast
  then show ?thesis
    by (simp add: form_submit_def catch_fetch_def showError_def Let_def)
qed

theorem form_submit_weather_failure_witness:
  "trim (cityInput_value fresh_page) = lit ''Paris'' \<and>
   fetch_fails (forecast_api net_forecast_500 (latitude paris) (longitude paris)
     (unit_param (unitToggle_checked fresh_page))) \<and>
   fst (form_submit_async net_forecast_500 fresh_page) = Inr () \<and>
   currentEl (form_submit net_forecast_500 fresh_page) = CurrentText [] \<and>
   forecastEl (form_submit net_forecast_500 fresh_page) = ForecastText [] \<and>
   errorEl (form_submit net_forecast_500 fresh_page) =
     lit ''Something went wrong fetching weather.''"
proof -
  have api: "geocoding_api net_forecast_500 (lit ''Paris'') =
      Response 200 (Some \<lparr>results = Some [paris]\<rparr>)"
    by (simp add: net_forecast_500_def)
  have st: "ok 200"
    by (simp add: ok_def)
  have res: "results \<lparr>results = Some [paris]\<rparr> = Some (paris # [])"
    by simp
  have fails: "fetch_fails (forecast_api net_forecast_500 (latitude paris) (longitude paris)
     (unit_param (unitToggle_checked fresh_page)))"
    by (simp add: net_forecast_500_def fetch_fails_def ok_def)
  show ?thesis
    using form_submit_weather_failure [OF trim_paris lit_paris_nonempty api st res fails]
      trim_paris fails
    by simp
qed

subsection \<open>Unit toggle and geolocation\<close>

lemma unitToggle_change_requests:
  assumes "lastLocation s = Some loc"
  shows "requests (unitToggle_change net s) =
     requests s @ [WeatherRequest (latitude loc) (longitude loc)
        (unit_param (unitToggle_checked s))]"
proof -
  let ?u = "unit_param (unitToggle_checked s)"
  let ?s3 = "s\<lparr>errorEl := [], currentEl := CurrentText
                (lit ''Location: '' @ name loc @
                 (if country loc \<noteq> [] then lit '', '' @ country loc else []) @
                 lit ''<br>Fetching weather'' @ ellipsis), forecastEl := ForecastText []\<rparr>"
  obtain r s4 where fw: "fetchWeather net (latitude loc) (longitude loc) ?u ?s3 = (r, s4)"
    by (cases "fetchWeather net (latitude loc) (longitude loc) ?u ?s3")
  have "requests s4 = requests s @ [WeatherRequest (latitude loc) (longitude loc) ?u]"
    using fetchWeather_requests [of net "latitude loc" "longitude loc" ?u ?s3] fw by simp
  then show ?thesis
    using assms fw
    by (cases r)
      (simp_all add: unitToggle_change_def toggle_try_def showError_def Let_def
         catch_fetch_def renderForecast_frame renderCurrent_frame)
qed

lemma unitToggle_change_ok:
  assumes "lastLocation s = Some loc"
    and "forecast_api net (latitude loc) (longitude loc) (unit_param (unitToggle_checked s)) =
           Response status (Some data)" and "ok status"
  shows "currentEl (unitToggle_change net s) =
           currentEl (renderCurrent loc data (unitToggle_checked s) s) \<and>
         forecastEl (unitToggle_change net s) =
           forecastEl (renderForecast data (unitToggle_checked s) s)"
  using assms(1)
  by (simp add: unitToggle_change_def toggle_try_def showError_def Let_def
      fetchWeather_ok [OF assms(2,3)] renderForecast_def renderCurrent_def)


lemma forecast_cards_unit:
  "c \<in> set (forecast_cards (renderForecast data useF s)) \<Longrightarrow> c_unit c = unit_suffix useF"
  by (auto simp add: forecast_cards_renderForecast day_card_def Let_def)

text \<open>
  When the request of the unit toggle fails, the catch block clears both areas and
  shows the generic message, as in the city search.
\<close>

lemma unitToggle_change_failure:
  assumes "lastLocation s = Some loc"
    and "fetch_fails (forecast_api net (latitude loc) (longitude loc)
           (unit_param (unitToggle_checked s)))"
  shows "currentEl (unitToggle_change net s) = CurrentText [] \<and>
         forecastEl (unitToggle_change net s) = ForecastText [] \<and>
         errorEl (unitToggle_change net s) = lit ''Something went wrong fetching weather.''"
proof -
  obtain err where fw: "\<And>s0. fetchWeather net (latitude loc) (longitude loc)
      (unit_param (unitToggle_checked s)) s0 =
      (Inl err, s0\<lparr>requests := requests s0 @
         [WeatherRequest (latitude loc) (longitude loc) (unit_param (unitToggle_checked s))]\<rparr>)"
    using fetchWeather_fails [OF assms(2)] by blast
  show ?thesis
    using assms(1)
    by (simp add: unitToggle_change_def toggle_try_def fw showError_def catch_fetch_def Let_def)
qed

text \<open>
  C4, as the code has it. In every state with a stored location, the change handler
  of the unit toggle sends exactly one request, a weather request for the stored
  latitude and longitude with the unit fahrenheit when the toggle is checked and
  celsius otherwise. When that request is answered with a success status and a
  readable body, the current panel and the forecast grid are the ones rendered from
  the answer, both with the suffix of the new unit; when the fetch fails, both areas
  are cleared and the generic message is shown.
\<close>

theorem unitToggle_refetches:
  assumes "lastLocation s = Some loc"
  shows "requests (unitToggle_change net s) =
           requests s @ [WeatherRequest (latitude loc) (longitude loc)
             (if unitToggle_checked s then lit ''fahrenheit'' else lit ''celsius'')] \<and>
         (\<forall>status data.
            forecast_api net (latitude loc) (longitude loc)
              (unit_param (unitToggle_checked s)) = Response status (Some data) \<and>
            ok status \<longrightarrow>
            currentEl (unitToggle_change net s) =
              currentEl (renderCurrent loc data (unitToggle_checked s) s) \<and>
            forecastEl (unitToggle_change net s) =
              forecastEl (renderForecast data (unitToggle_checked s) s) \<and>
            (\<exists>p. currentEl (unitToggle_change net s) = CurrentPanel p \<and>
                 p_unit p = (if unitToggle_checked s then degree @ lit ''F''
                             else degree @ lit ''C'')) \<and>
            (\<exists>cards. forecastEl (unitToggle_change net s) = ForecastGrid cards \<and>
                 length cards = min 5 (length (time (daily data))) \<and>
                 (\<forall>c \<in> set cards.
                    c_unit c = (if unitToggle_checked s then degree @ lit ''F''
                                else degree @ lit ''C'')))) \<and>
         (fetch_fails (forecast_api net (latitude loc) (longitude loc)
              (unit_param (unitToggle_checked s))) \<longrightarrow>
            currentEl (unitToggle_change net s) = CurrentText [] \<and>
            forecastEl (unitToggle_change net s) = ForecastText [] \<and>
            errorEl (unitToggle_change net s) =
              lit ''Something went wrong fetching weather.'')"
proof -
  have req: "requests (unitToggle_change net s) =
           requests s @ [WeatherRequest (latitude loc) (longitude loc)
             (if unitToggle_checked s then lit ''fahrenheit'' else lit ''celsius'')]"
    using unitToggle_change_requests [OF assms, of net] by (simp add: unit_param_def)
  have ren: "currentEl (unitToggle_change net s) =
              currentEl (renderCurrent loc data (unitToggle_checked s) s) \<and>
            forecastEl (unitToggle_change net s) =
              forecastEl (renderForecast data (unitToggle_checked s) s) \<and>
            (\<exists>p. currentEl (unitToggle_change net s) = CurrentPanel p \<and>
                 p_unit p = (if unitToggle_checked s then degree @ lit ''F''
                             else degree @ lit ''C'')) \<and>
            (\<exists>cards. forecastEl (unitToggle_change net s) = ForecastGrid cards \<and>
                 length cards = min 5 (length (time (daily data))) \<and>
                 (\<forall>c \<in> set cards.
                    c_unit c = (if unitToggle_checked s then degree @ lit ''F''
                                else degree @ lit ''C'')))"
    if api: "forecast_api net (latitude loc) (longitude loc)
              (unit_param (unitToggle_checked s)) = Response status (Some data)"
      and st: "ok status" for status data
  proof -
    let ?useF = "unitToggle_checked s"
    let ?suffix = "if ?useF then degree @ lit ''F'' else degree @ lit ''C''"
    note both = unitToggle_change_ok [OF assms api st]
    have cur: "\<exists>p. currentEl (renderCurrent loc data ?useF s) = CurrentPanel p \<and>
        p_unit p = ?suffix"
      by (simp add: renderCurrent_def unit_suffix_def Let_def)
    let ?cards = "forecast_cards (renderForecast data ?useF s)"
    have grid: "forecastEl (renderForecast data ?useF s) = ForecastGrid ?cards"
      by (simp add: renderForecast_def forecast_cards_def Let_def)
    have len: "length ?cards = min 5 (length (time (daily data)))"
      by (simp add: forecast_cards_renderForecast)
    have units: "\<forall>c \<in> set ?cards. c_unit c = ?suffix"
      using forecast_cards_unit [of _ data ?useF s] by (simp add: unit_suffix_def)
    show ?thesis
      using both cur grid len units by metis
  qed
  show ?thesis
    using req ren unitToggle_change_failure [OF assms, of net] by blast
qed

theorem unitToggle_refetches_witness:
  "lastLocation (paris_page\<lparr>unitToggle_checked := True\<rparr>) = Some paris \<and>
   requests (unitToggle_change net_up (paris_page\<lparr>unitToggle_checked := True\<rparr>)) =
     [WeatherRequest (latitude paris) (longitude paris) (lit ''fahrenheit'')] \<and>
   ok 200 \<and>
   (\<exists>p. currentEl (unitToggle_change net_up (paris_page\<lparr>unitToggle_checked := True\<rparr>)) =
          CurrentPanel p \<and> p_unit p = degree @ lit ''F'') \<and>
   (\<exists>cards. forecastEl (unitToggle_change net_up (paris_page\<lparr>unitToggle_checked := True\<rparr>)) =
          ForecastGrid cards \<and> length cards = 5 \<and>
          (\<forall>c \<in> set cards. c_unit c = degree @ lit ''F'')) \<and>
   fetch_fails (forecast_api net_forecast_down (latitude paris) (longitude paris)
     (unit_param (unitToggle_checked paris_page))) \<and>
   currentEl (unitToggle_change net_forecast_down paris_page) = CurrentText [] \<and>
   forecastEl (unitToggle_change net_forecast_down paris_page) = ForecastText []"
proof -
  let ?s = "paris_page\<lparr>unitToggle_checked := True\<rparr>"
  have stored: "lastLocation paris_page = Some paris"
    by (simp add: paris_page_def)
  have down: "fetch_fails (forecast_api net_forecast_down (latitude paris) (longitude paris)
     (unit_param (unitToggle_checked paris_page)))"
    by (simp add: net_forecast_down_def fetch_fails_def)
  have cleared: "currentEl (unitToggle_change net_forecast_down paris_page) = CurrentText [] \<and>
      forecastEl (unitToggle_change net_forecast_down paris_page) = ForecastText []"
    using unitToggle_refetches [OF stored, of net_forecast_down] down by blast
  have loc: "lastLocation ?s = Some paris"
    by (simp add: paris_page_def)
  have checked: "unitToggle_checked ?s"
    by simp
  have req0: "requests ?s = []"
    by (simp add: paris_page_def fresh_page_def)
  have api: "forecast_api net_up (latitude paris) (longitude paris)
      (unit_param (unitToggle_checked ?s)) = Response 200 (Some week)"
    by (simp add: net_up_def)
  have st: "ok 200"
    by (simp add: ok_def)
  have len: "min 5 (length (time (daily week))) = 5"
    by (simp add: week_def)
  note T = unitToggle_refetches [OF loc, of net_up]
  have req: "requests (unitToggle_change net_up ?s) =
     [WeatherRequest (latitude paris) (longitude paris) (lit ''fahrenheit'')]"
    using T req0 by simp
  have "(\<exists>p. currentEl (unitToggle_change net_up ?s) = CurrentPanel p \<and>
           p_unit p = (if unitToggle_checked ?s then degree @ lit ''F''
                       else degree @ lit ''C'')) \<and>
        (\<exists>cards. forecastEl (unitToggle_change net_up ?s) = ForecastGrid cards \<and>
           length cards = min 5 (length (time (daily week))) \<and>
           (\<forall>c \<in> set cards.
              c_unit c = (if unitToggle_checked ?s then degree @ lit ''F''
                          else degree @ lit ''C'')))"
    using T api st by blast
  then have "(\<exists>p. currentEl (unitToggle_change net_up ?s) = CurrentPanel p \<and>
           p_unit p = degree @ lit ''F'') \<and>
        (\<exists>cards. forecastEl (unitToggle_change net_up ?s) = ForecastGrid cards \<and>
           length cards = 5 \<and> (\<forall>c \<in> set cards. c_unit c = degree @ lit ''F''))"
    unfolding len by simp
  then show ?thesis
    using loc req st down cleared by blast
qed

text \<open>
  C4 as stated fails where the fetch fails: on the page with Paris stored and the
  forecast endpoint answering with status 500, the handler sends its one request and
  then leaves both areas empty, with the generic message, instead of a panel and a
  grid.
\<close>

theorem unitToggle_failed_fetch_counterexample:
  "lastLocation paris_page = Some paris \<and>
   requests (unitToggle_change net_forecast_500 paris_page) =
     [WeatherRequest (latitude paris) (longitude paris) (lit ''celsius'')] \<and>
   currentEl (unitToggle_change net_forecast_500 paris_page) = CurrentText [] \<and>
   forecastEl (unitToggle_change net_forecast_500 paris_page) = ForecastText [] \<and>
   errorEl (unitToggle_change net_forecast_500 paris_page) =
     lit ''Something went wrong fetching weather.''"
proof -
  have loc: "lastLocation paris_page = Some paris"
    by (simp add: paris_page_def)
  have fails: "fetch_fails (forecast_api net_forecast_500 (latitude paris) (longitude paris)
      (unit_param (unitToggle_checked paris_page)))"
    by (simp add: net_forecast_500_def fetch_fails_def ok_def)
  have req: "requests (unitToggle_change net_forecast_500 paris_page) =
      [WeatherRequest (latitude paris) (longitude paris) (lit ''celsius'')]"
    using unitToggle_change_requests [OF loc, of net_forecast_500]
    by (simp add: paris_page_def fresh_page_def unit_param_def)
  show ?thesis
    using loc req unitToggle_change_failure [OF loc fails] by simp
qed

text \<open>
  C6. The click handler disables the button and labels it "Locating..." while the
  platform has not called back. On every completion, whether the success callback
  runs (the weather fetch succeeding or failing) or the error callback runs, the
  button is enabled again and labelled "Use my location".
\<close>

theorem geoBtn_restored:
  "geoBtn_disabled (geoBtn_click net (Some Pending) s) \<and>
   geoBtn_textContent (geoBtn_click net (Some Pending) s) = lit ''Locating'' @ ellipsis \<and>
   (result \<noteq> Pending \<longrightarrow>
      \<not> geoBtn_disabled (geoBtn_click net (Some result) s) \<and>
      geoBtn_textContent (geoBtn_click net (Some result) s) = lit ''Use my location'')"
  by (cases result) (simp_all add: geoBtn_click_def geo_success_def geo_error_def Let_def)

theorem geoBtn_restored_witness:
  "Position 48.86 2.35 \<noteq> Pending \<and>
   \<not> geoBtn_disabled (geoBtn_click net_up (Some (Position 48.86 2.35)) fresh_page) \<and>
   geoBtn_textContent (geoBtn_click net_up (Some (Position 48.86 2.35)) fresh_page) =
     lit ''Use my location'' \<and>
   \<not> geoBtn_disabled (geoBtn_click net_forecast_down (Some (Position 48.86 2.35)) fresh_page) \<and>
   geoBtn_textContent (geoBtn_click net_forecast_down (Some (Position 48.86 2.35)) fresh_page) =
     lit ''Use my location'' \<and>
   PositionError None \<noteq> Pending \<and>
   \<not> geoBtn_disabled (geoBtn_click net_up (Some (PositionError None)) fresh_page) \<and>
   geoBtn_textContent (geoBtn_click net_up (Some (PositionError None)) fresh_page) =
     lit ''Use my location''"
proof -
  have pos: "Position 48.86 2.35 \<noteq> Pending" and err: "PositionError None \<noteq> Pending"
    by simp_all
  show ?thesis
    using geoBtn_restored [of net_up fresh_page "Position 48.86 2.35"]
      geoBtn_restored [of net_forecast_down fresh_page "Position 48.86 2.35"]
      geoBtn_restored [of net_up fresh_page "PositionError None"] pos err
    by blast
qed

text \<open>
  C10. When the weather fetch fails in the success callback of the geolocation
  request, the stored location keeps its value; a later change of the unit toggle
  then sends its request to the coordinates stored before (or sends none when no
  location was stored), never to the coordinates of the failed lookup.
\<close>

theorem geo_failure_keeps_lastLocation:
  assumes "fetch_fails (forecast_api net lat lon (unit_param (unitToggle_checked s)))"
  shows "lastLocation (geoBtn_click net (Some (Position lat lon)) s) = lastLocation s \<and>
         requests (unitToggle_change net2
            ((geoBtn_click net (Some (Position lat lon)) s)\<lparr>unitToggle_checked := b\<rparr>)) =
           requests (geoBtn_click net (Some (Position lat lon)) s) @
           (case lastLocation s of
              None \<Rightarrow> []
            | Some loc \<Rightarrow> [WeatherRequest (latitude loc) (longitude loc) (unit_param b)])"
proof -
  let ?s1 = "geoBtn_click net (Some (Position lat lon)) s"
  obtain err where fw: "\<And>s0. fetchWeather net lat lon (unit_param (unitToggle_checked s)) s0 =
      (Inl err, s0\<lparr>requests := requests s0 @
         [WeatherRequest lat lon (unit_param (unitToggle_checked s))]\<rparr>)"
    using fetchWeather_fails [OF assms] by blast
  have keep: "lastLocation ?s1 = lastLocation s"
    by (simp add: geoBtn_click_def geo_success_def geo_success_try_def fw showError_def Let_def)
  have "requests (unitToggle_change net2 (?s1\<lparr>unitToggle_checked := b\<rparr>)) =
           requests ?s1 @
           (case lastLocation s of
              None \<Rightarrow> []
            | Some loc \<Rightarrow> [WeatherRequest (latitude loc) (longitude loc) (unit_param b)])"
  proof (cases "lastLocation s")
    case None
    then show ?thesis
      using keep by (simp add: unitToggle_change_def)
  next
    case (Some loc)
    then have "lastLocation (?s1\<lparr>unitToggle_checked := b\<rparr>) = Some loc"
      using keep by simp
    from unitToggle_change_requests [OF this, of net2] Some show ?thesis
      by simp
  qed
  with keep show ?thesis by simp
qed

theorem geo_failure_keeps_lastLocation_witness:
  "fetch_fails (forecast_api net_forecast_down 52.52 13.41
     (unit_param (unitToggle_checked paris_page))) \<and>
   lastLocation (geoBtn_click net_forecast_down (Some (Position 52.52 13.41)) paris_page) =
     Some paris \<and>
   requests (unitToggle_change net_up
      ((geoBtn_click net_forecast_down (Some (Position 52.52 13.41)) paris_page)
         \<lparr>unitToggle_checked := True\<rparr>)) =
     requests (geoBtn_click net_forecast_down (Some (Position 52.52 13.41)) paris_page) @
     [WeatherRequest (latitude paris) (longitude paris) (unit_param True)]"
proof -
  have fails: "fetch_fails (forecast_api net_forecast_down 52.52 13.41
     (unit_param (unitToggle_checked paris_page)))"
    by (simp add: net_forecast_down_def fetch_fails_def)
  have loc: "lastLocation paris_page = Some paris"
    by (simp add: paris_page_def)
  show ?thesis
    using geo_failure_keeps_lastLocation [OF fails, of net_up True] fails loc
    by simp
qed

text \<open>On success the stored location becomes the synthetic one.\<close>

lemma geo_success_updates_lastLocation:
  assumes "forecast_api net lat lon (unit_param (unitToggle_checked s)) =
             Response status (Some data)" and "ok status"
  shows "lastLocation (geoBtn_click net (Some (Position lat lon)) s) =
     Some \<lparr>name = lit ''Your location'', country = [], latitude = lat, longitude = lon\<rparr>"
  by (simp add: geoBtn_click_def geo_success_def geo_success_try_def showError_def Let_def
      fetchWeather_ok [OF assms] renderForecast_frame renderCurrent_frame)

end
